theory Spec2Isabelle
  imports
    Complex_Main
    "HOL-Library.Char_ord"
    "HOL-Library.List_Lexorder"
    "HOL-Library.Sublist"
    "HOL-Library.Multiset"
begin

chapter \<open>The heart viewer script and the systems launcher\<close>

text \<open>
  The repository holds two independent programs: \<^verbatim>\<open>visualization.py\<close>, which lists the
  mesh files of one folder, colours them from a fixed palette and hands them to a
  rendering toolkit, and \<^verbatim>\<open>gui.py\<close> (with \<^verbatim>\<open>Systems/Cardiac_System.py\<close>), a launcher
  window with four buttons that open detail windows.

  Python floats that are only stored and compared (colour channels, lighting constants,
  opacities) are read as the real numbers their literals denote. Everything the scripts
  print is kept as a list of messages, and \<^verbatim>\<open>sys.exit\<close> is a value of the result type.
\<close>

section \<open>visualization.py: configuration\<close>

type_synonym color = "real \<times> real \<times> real"

text \<open>The keys of the dictionary \<^verbatim>\<open>HEART_COLORS\<close>.\<close>

datatype tissue = muscle_tissue | arterial | venous

fun HEART_COLORS :: "tissue \<Rightarrow> color list" where
  "HEART_COLORS muscle_tissue =
     [(0.85, 0.45, 0.45), (0.90, 0.50, 0.50), (0.88, 0.48, 0.48), (0.82, 0.42, 0.42)]"
| "HEART_COLORS arterial =
     [(0.92, 0.35, 0.35), (0.88, 0.32, 0.32), (0.85, 0.30, 0.30)]"
| "HEART_COLORS venous =
     [(0.60, 0.70, 0.85), (0.55, 0.65, 0.82), (0.50, 0.60, 0.80)]"

text \<open>Python's \<^verbatim>\<open>xs * n\<close> on a list.\<close>

definition list_times :: "'a list \<Rightarrow> nat \<Rightarrow> 'a list" where
  "list_times xs n = concat (replicate n xs)"

definition ALL_COLORS :: "color list" where
  "ALL_COLORS =
     list_times (HEART_COLORS muscle_tissue) 2 @ HEART_COLORS arterial @ HEART_COLORS venous"

definition BACKGROUND_COLOR :: color where
  "BACKGROUND_COLOR = (0.18, 0.18, 0.18)"

definition DEFAULT_OPACITY :: real where
  "DEFAULT_OPACITY = 1.0"

text \<open>The dictionary \<^verbatim>\<open>LIGHTING_CONFIG\<close>, one field per key.\<close>

record lighting_config =
  cfg_ambient :: real
  cfg_diffuse :: real
  cfg_specular :: real
  cfg_specular_power :: real

definition LIGHTING_CONFIG :: lighting_config where
  "LIGHTING_CONFIG =
     \<lparr>cfg_ambient = 0.35, cfg_diffuse = 0.65, cfg_specular = 0.15, cfg_specular_power = 8\<rparr>"

section \<open>visualization.py: paths, the folder and what is printed\<close>

text \<open>
  A \<^verbatim>\<open>pathlib.Path\<close> is the list of its parts. Which class \<^verbatim>\<open>Path\<close> is depends on the
  platform the script runs on: \<^verbatim>\<open>WindowsPath\<close> on Windows, where the hardcoded mesh folder
  lives, and \<^verbatim>\<open>PosixPath\<close> elsewhere. The two differ in how names are matched and
  compared: the POSIX flavour takes the names as they are, the Windows flavour takes them
  in lower case.
\<close>

type_synonym path = "string list"

datatype flavour = Posix | Windows

text \<open>
  \<^verbatim>\<open>str.lower\<close> on one character: the letters A to Z go to a to z. A character outside
  ASCII is several bytes here and is left as it is.
\<close>

definition lower_char :: "char \<Rightarrow> char" where
  "lower_char c =
     (case map_of (zip ''ABCDEFGHIJKLMNOPQRSTUVWXYZ'' ''abcdefghijklmnopqrstuvwxyz'') c of
        None \<Rightarrow> c
      | Some l \<Rightarrow> l)"

text \<open>The case normalisation of a flavour: none for POSIX, lower case for Windows.\<close>

fun normcase :: "flavour \<Rightarrow> string \<Rightarrow> string" where
  "normcase Posix s = s"
| "normcase Windows s = map lower_char s"

text \<open>
  What pathlib compares when it orders two paths: the parts, each normalised. Lists of
  strings are ordered part by part and each part character by character.
\<close>

definition path_key :: "flavour \<Rightarrow> path \<Rightarrow> path" where
  "path_key fl p = map (normcase fl) p"

text \<open>\<^verbatim>\<open>Path.name\<close>: the last part, empty for the empty path.\<close>

definition path_name :: "path \<Rightarrow> string" where
  "path_name p = (if p = [] then [] else last p)"

text \<open>
  The file system as the script sees it: a folder that exists is mapped to the names of its
  entries, any other path to \<open>None\<close>.
\<close>

type_synonym filesystem = "path \<rightharpoonup> string list"

text \<open>
  Shell-style matching, character for character, of a name against a pattern whose only
  wildcard is \<^verbatim>\<open>*\<close> (the script's one pattern, \<^verbatim>\<open>*.obj\<close>, has no other special
  character).
\<close>

fun fnmatchcase :: "string \<Rightarrow> string \<Rightarrow> bool" where
  "fnmatchcase [] [] = True"
| "fnmatchcase [] (c # s) = False"
| "fnmatchcase (p # ps) [] = (if p = CHR ''*'' then fnmatchcase ps [] else False)"
| "fnmatchcase (p # ps) (c # s) =
     (if p = CHR ''*'' then (if fnmatchcase ps (c # s) then True else fnmatchcase (p # ps) s)
      else if p = c then fnmatchcase ps s else False)"

text \<open>
  Matching as pathlib does it for a flavour: as they are on POSIX, without regard to case
  on Windows, where \<^verbatim>\<open>HEART.OBJ\<close> matches \<^verbatim>\<open>*.obj\<close>.
\<close>

definition fnmatch :: "flavour \<Rightarrow> string \<Rightarrow> string \<Rightarrow> bool" where
  "fnmatch fl pattern name = fnmatchcase (normcase fl pattern) (normcase fl name)"

text \<open>\<^verbatim>\<open>folder.glob(pattern)\<close>: the entries of the folder whose name matches, as paths.\<close>

definition glob :: "flavour \<Rightarrow> filesystem \<Rightarrow> path \<Rightarrow> string \<Rightarrow> path list" where
  "glob fl fs folder pattern =
     (case fs folder of
        None \<Rightarrow> []
      | Some entries \<Rightarrow> map (\<lambda>n. folder @ [n]) (filter (fnmatch fl pattern) entries))"

text \<open>
  One constructor for each \<^verbatim>\<open>print\<close> of the script, with the values it interpolates;
  each of the three banners of \<^verbatim>\<open>main\<close> (a title between two rules) is one constructor.
\<close>

datatype message =
    Title_banner
  | Folder_does_not_exist path
  | Please_create_folder
  | No_obj_files_found path
  | Rule_line
  | Found_count nat
  | Listed nat string
  | Loading_and_rendering
  | Loaded string
  | Could_not_load string string
  | No_meshes_loaded
  | Successfully_loaded nat
  | Opening_viewer
  | Viewer_closed

text \<open>A call either returns or leaves through \<^verbatim>\<open>sys.exit(code)\<close>.\<close>

datatype 'a outcome = SystemExit int | Returned 'a

text \<open>
  \<^verbatim>\<open>sorted\<close> is a stable sort by the order of the paths, that is, by their keys: paths
  that pathlib takes for equal stay in the order in which the folder listed them.
\<close>

definition load_obj_files ::
    "flavour \<Rightarrow> filesystem \<Rightarrow> path \<Rightarrow> message list \<times> path list outcome" where
  "load_obj_files fl fs folder_path =
     (if fs folder_path = None then
        ([Folder_does_not_exist folder_path, Please_create_folder], SystemExit 1)
      else
        let obj_files = sort_key (path_key fl) (glob fl fs folder_path ''*.obj'') in
        if obj_files = [] then ([No_obj_files_found folder_path], SystemExit 1)
        else
          ([Rule_line, Found_count (length obj_files), Rule_line]
             @ map (\<lambda>(idx, obj_file). Listed idx (path_name obj_file)) (enumerate 1 obj_files)
             @ [Rule_line],
           Returned obj_files))"

section \<open>visualization.py: the rendering toolkit and the scene\<close>

datatype interpolation = Flat | Gouraud | Phong

text \<open>The surface property object of an actor (what \<^verbatim>\<open>actor.GetProperty()\<close> returns).\<close>

record property =
  color :: color
  ambient :: real
  diffuse :: real
  specular :: real
  specular_power :: real
  interp :: interpolation
  opacity :: real

record 'm actor =
  actor_name :: string
  actor_mesh :: 'm
  GetProperty :: property

text \<open>
  The calls into the mesh library that the loading loop makes inside its \<^verbatim>\<open>try\<close> block.
  Each may raise; \<open>Inl\<close> carries the text of the exception. The type \<open>'m\<close> of meshes is
  left open. \<open>path_stem\<close> is \<^verbatim>\<open>Path.stem\<close>.
\<close>

record 'm toolkit =
  pv_read :: "path \<Rightarrow> string + 'm"
  compute_normals :: "'m \<Rightarrow> string + 'm"
  add_mesh :: "'m \<Rightarrow> color \<Rightarrow> string \<Rightarrow> string + 'm actor"
  path_stem :: "path \<Rightarrow> string"

definition apply_realistic_material :: "'m actor \<Rightarrow> color \<Rightarrow> 'm actor" where
  "apply_realistic_material actor c =
     actor\<lparr>GetProperty := (GetProperty actor)
       \<lparr>color := c,
        ambient := cfg_ambient LIGHTING_CONFIG,
        diffuse := cfg_diffuse LIGHTING_CONFIG,
        specular := cfg_specular LIGHTING_CONFIG,
        specular_power := cfg_specular_power LIGHTING_CONFIG,
        interp := Phong,
        opacity := DEFAULT_OPACITY\<rparr>\<rparr>"

record light =
  light_position :: "real \<times> real \<times> real"
  light_focal_point :: "real \<times> real \<times> real"
  light_intensity :: real

definition setup_realistic_lighting :: "light list" where
  "setup_realistic_lighting =
     [\<lparr>light_position = (10, 15, 10), light_focal_point = (0, 0, 0), light_intensity = 0.6\<rparr>,
      \<lparr>light_position = (-8, -5, 8), light_focal_point = (0, 0, 0), light_intensity = 0.25\<rparr>,
      \<lparr>light_position = (0, 5, -12), light_focal_point = (0, 0, 0), light_intensity = 0.20\<rparr>,
      \<lparr>light_position = (0, -10, 0), light_focal_point = (0, 0, 0), light_intensity = 0.12\<rparr>]"

section \<open>visualization.py: the viewer\<close>

text \<open>
  The body of the \<^verbatim>\<open>try\<close> block for the file at position \<open>idx\<close>: the meshes it has
  appended to \<^verbatim>\<open>meshes\<close> by the time it ends, and either the exception that ended it or
  the finished actor.
\<close>

definition try_block :: "'m toolkit \<Rightarrow> nat \<Rightarrow> path \<Rightarrow> 'm list \<times> (string + 'm actor)" where
  "try_block tk idx obj_file =
     (case pv_read tk obj_file of
        Inl e \<Rightarrow> ([], Inl e)
      | Inr mesh \<Rightarrow>
          (case compute_normals tk mesh of
             Inl e \<Rightarrow> ([mesh], Inl e)
           | Inr mesh' \<Rightarrow>
               let c = ALL_COLORS ! (idx mod length ALL_COLORS) in
               (case add_mesh tk mesh' c (path_stem tk obj_file) of
                  Inl e \<Rightarrow> ([mesh], Inl e)
                | Inr actor \<Rightarrow> ([mesh], Inr (apply_realistic_material actor c)))))"

record 'm scene =
  actors :: "'m actor list"
  meshes :: "'m list"
  printed :: "message list"

text \<open>One round of the loop: the \<^verbatim>\<open>try\<close> block and its \<^verbatim>\<open>except Exception\<close> handler.\<close>

definition loop_body :: "'m toolkit \<Rightarrow> nat \<Rightarrow> path \<Rightarrow> 'm scene \<Rightarrow> 'm scene" where
  "loop_body tk idx obj_file sc =
     (case try_block tk idx obj_file of
        (ms, Inr actor) \<Rightarrow>
          sc\<lparr>actors := actors sc @ [actor], meshes := meshes sc @ ms,
             printed := printed sc @ [Loaded (path_name obj_file)]\<rparr>
      | (ms, Inl e) \<Rightarrow>
          sc\<lparr>meshes := meshes sc @ ms,
             printed := printed sc @ [Could_not_load (path_name obj_file) e]\<rparr>)"

fun load_loop :: "'m toolkit \<Rightarrow> (nat \<times> path) list \<Rightarrow> 'm scene \<Rightarrow> 'm scene" where
  "load_loop tk [] sc = sc"
| "load_loop tk ((idx, obj_file) # rest) sc = load_loop tk rest (loop_body tk idx obj_file sc)"

text \<open>The slider widget: the range and the start value the script passes to the toolkit.\<close>

record slider_widget =
  slider_range :: "real \<times> real"
  slider_value :: real

record 'm plotter =
  background :: color
  window_size :: "nat \<times> nat"
  plot_actors :: "'m actor list"
  plot_meshes :: "'m list"
  lights :: "light list"
  slider :: slider_widget

text \<open>The nested callback \<^verbatim>\<open>update_opacity(value)\<close> over the list \<^verbatim>\<open>actors\<close>.\<close>

definition update_opacity :: "real \<Rightarrow> 'm actor list \<Rightarrow> 'm actor list" where
  "update_opacity v as = map (\<lambda>actor. actor\<lparr>GetProperty := (GetProperty actor)\<lparr>opacity := v\<rparr>\<rparr>) as"

definition create_realistic_heart_viewer ::
    "'m toolkit \<Rightarrow> path list \<Rightarrow> message list \<times> 'm plotter outcome" where
  "create_realistic_heart_viewer tk obj_files =
     (let sc = load_loop tk (enumerate 0 obj_files)
                 \<lparr>actors = [], meshes = [], printed = [Loading_and_rendering, Rule_line]\<rparr>;
          out = printed sc @ [Rule_line]
      in if actors sc = [] then (out @ [No_meshes_loaded], SystemExit 1)
         else
           (out @ [Successfully_loaded (length (actors sc))],
            Returned
              \<lparr>background = BACKGROUND_COLOR,
               window_size = (1920, 1080),
               plot_actors = actors sc,
               plot_meshes = meshes sc,
               lights = setup_realistic_lighting,
               slider = \<lparr>slider_range = (0.1, 1.0), slider_value = DEFAULT_OPACITY\<rparr>\<rparr>))"

text \<open>
  Moving the slider: the toolkit's slider keeps its value inside the range it was created
  with, stores it, and calls the callback with it.
\<close>

definition slider_moved :: "real \<Rightarrow> 'm plotter \<Rightarrow> 'm plotter" where
  "slider_moved raw pl =
     (let v = max (fst (slider_range (slider pl))) (min (snd (slider_range (slider pl))) raw)
      in pl\<lparr>slider := (slider pl)\<lparr>slider_value := v\<rparr>,
            plot_actors := update_opacity v (plot_actors pl)\<rparr>)"

text \<open>
  The hardcoded mesh folder, \<^verbatim>\<open>C:\Users\Admin\Desktop\Anatomy tasks\Task 3\3D Data\Heart\<close>,
  as the parts of \<^verbatim>\<open>Path(OBJ_FOLDER)\<close>: on Windows the drive with its root and the seven
  names below it, on POSIX, where a backslash does not separate, the whole text as one
  name.
\<close>

definition backslash :: char where
  "backslash = CHR 0x5C"

fun OBJ_FOLDER :: "flavour \<Rightarrow> path" where
  "OBJ_FOLDER Windows =
     [''C:'' @ [backslash], ''Users'', ''Admin'', ''Desktop'', ''Anatomy tasks'', ''Task 3'',
      ''3D Data'', ''Heart'']"
| "OBJ_FOLDER Posix =
     [''C:'' @ [backslash] @ ''Users'' @ [backslash] @ ''Admin'' @ [backslash] @ ''Desktop''
        @ [backslash] @ ''Anatomy tasks'' @ [backslash] @ ''Task 3'' @ [backslash]
        @ ''3D Data'' @ [backslash] @ ''Heart'']"

definition main ::
    "flavour \<Rightarrow> filesystem \<Rightarrow> 'm toolkit \<Rightarrow> message list \<times> 'm plotter outcome" where
  "main fl fs tk =
     (case load_obj_files fl fs (OBJ_FOLDER fl) of
        (out1, SystemExit code) \<Rightarrow> (Title_banner # out1, SystemExit code)
      | (out1, Returned obj_files) \<Rightarrow>
          (case create_realistic_heart_viewer tk obj_files of
             (out2, SystemExit code) \<Rightarrow> (Title_banner # out1 @ out2, SystemExit code)
           | (out2, Returned pl) \<Rightarrow>
               (Title_banner # out1 @ out2 @ [Opening_viewer, Viewer_closed], Returned pl)))"

section \<open>gui.py: the border of the custom button\<close>

text \<open>
  Python's \<^verbatim>\<open>range(start, stop, step)\<close>. The source calls it with the steps 1, 5 and -1
  only; for the step 0, where Python raises, the list is empty here.
\<close>

function py_range :: "int \<Rightarrow> int \<Rightarrow> int \<Rightarrow> int list" where
  "py_range start stop step =
     (if 0 < step \<and> start < stop then start # py_range (start + step) stop step
      else if step < 0 \<and> stop < start then start # py_range (start + step) stop step
      else [])"
  by pat_completeness auto
termination
  by (relation "measure (\<lambda>(start, stop, step). nat (if 0 < step then stop - start else start - stop))")
    auto

declare py_range.simps [simp del]

text \<open>\<^verbatim>\<open>math.radians\<close> of a whole number of degrees.\<close>

definition radians :: "int \<Rightarrow> real" where
  "radians angle = real_of_int angle * pi / 180"

text \<open>
  The eight loops of \<^verbatim>\<open>create_rounded_rect_border\<close>, in the order and under the names
  of the comments in the source. Canvas coordinates grow to the right and downwards.
  The side points are pairs of Python integers and the arc points pairs of floats; both
  are read as real numbers, with \<^verbatim>\<open>math.cos\<close> and \<^verbatim>\<open>math.sin\<close> as the real cosine and
  sine.
\<close>

type_synonym point = "real \<times> real"

definition top_side :: "int \<Rightarrow> int \<Rightarrow> int \<Rightarrow> int \<Rightarrow> int \<Rightarrow> point list" where
  "top_side x1 y1 x2 y2 radius =
     map (\<lambda>i. (real_of_int i, real_of_int y1)) (py_range (x1 + radius) (x2 - radius + 1) 1)"

definition right_top_arc :: "int \<Rightarrow> int \<Rightarrow> int \<Rightarrow> int \<Rightarrow> int \<Rightarrow> point list" where
  "right_top_arc x1 y1 x2 y2 radius =
     map (\<lambda>angle.
            (real_of_int (x2 - radius) + real_of_int radius * cos (radians angle),
             real_of_int (y1 + radius) - real_of_int radius * sin (radians angle)))
         (py_range 0 91 5)"

definition right_side :: "int \<Rightarrow> int \<Rightarrow> int \<Rightarrow> int \<Rightarrow> int \<Rightarrow> point list" where
  "right_side x1 y1 x2 y2 radius =
     map (\<lambda>i. (real_of_int x2, real_of_int i)) (py_range (y1 + radius) (y2 - radius + 1) 1)"

definition right_bottom_arc :: "int \<Rightarrow> int \<Rightarrow> int \<Rightarrow> int \<Rightarrow> int \<Rightarrow> point list" where
  "right_bottom_arc x1 y1 x2 y2 radius =
     map (\<lambda>angle.
            (real_of_int (x2 - radius) + real_of_int radius * cos (radians angle),
             real_of_int (y2 - radius) - real_of_int radius * sin (radians angle)))
         (py_range 90 181 5)"

definition bottom_side :: "int \<Rightarrow> int \<Rightarrow> int \<Rightarrow> int \<Rightarrow> int \<Rightarrow> point list" where
  "bottom_side x1 y1 x2 y2 radius =
     map (\<lambda>i. (real_of_int i, real_of_int y2)) (py_range (x2 - radius) (x1 + radius - 1) (- 1))"

definition left_bottom_arc :: "int \<Rightarrow> int \<Rightarrow> int \<Rightarrow> int \<Rightarrow> int \<Rightarrow> point list" where
  "left_bottom_arc x1 y1 x2 y2 radius =
     map (\<lambda>angle.
            (real_of_int (x1 + radius) + real_of_int radius * cos (radians angle),
             real_of_int (y2 - radius) - real_of_int radius * sin (radians angle)))
         (py_range 180 271 5)"

definition left_side :: "int \<Rightarrow> int \<Rightarrow> int \<Rightarrow> int \<Rightarrow> int \<Rightarrow> point list" where
  "left_side x1 y1 x2 y2 radius =
     map (\<lambda>i. (real_of_int x1, real_of_int i)) (py_range (y2 - radius) (y1 + radius - 1) (- 1))"

definition left_top_arc :: "int \<Rightarrow> int \<Rightarrow> int \<Rightarrow> int \<Rightarrow> int \<Rightarrow> point list" where
  "left_top_arc x1 y1 x2 y2 radius =
     map (\<lambda>angle.
            (real_of_int (x1 + radius) + real_of_int radius * cos (radians angle),
             real_of_int (y1 + radius) - real_of_int radius * sin (radians angle)))
         (py_range 270 361 5)"

text \<open>The list \<^verbatim>\<open>points\<close> when the loops are done.\<close>

definition border_points :: "int \<Rightarrow> int \<Rightarrow> int \<Rightarrow> int \<Rightarrow> int \<Rightarrow> point list" where
  "border_points x1 y1 x2 y2 radius =
     top_side x1 y1 x2 y2 radius @ right_top_arc x1 y1 x2 y2 radius
     @ right_side x1 y1 x2 y2 radius @ right_bottom_arc x1 y1 x2 y2 radius
     @ bottom_side x1 y1 x2 y2 radius @ left_bottom_arc x1 y1 x2 y2 radius
     @ left_side x1 y1 x2 y2 radius @ left_top_arc x1 y1 x2 y2 radius"

text \<open>The canvas line item that \<^verbatim>\<open>create_line\<close> is asked for.\<close>

record line_item =
  coords :: "real list"
  fill :: string
  line_width :: int
  smooth :: bool
  tags :: string

definition create_rounded_rect_border ::
    "int \<Rightarrow> int \<Rightarrow> int \<Rightarrow> int \<Rightarrow> int \<Rightarrow> string \<Rightarrow> int \<Rightarrow> line_item option" where
  "create_rounded_rect_border x1 y1 x2 y2 radius col width =
     (let points = border_points x1 y1 x2 y2 radius in
      if length points > 2 then
        Some \<lparr>coords = concat (map (\<lambda>(x, y). [x, y]) points), fill = col, line_width = width,
              smooth = True, tags = ''border''\<rparr>
      else None)"

text \<open>
  The outline that the border is meant to follow: the four straight sides between the
  corner circles, and of each corner circle the quarter that faces away from the
  rectangle. \<open>qx\<close> and \<open>qy\<close> are the signs of the outward directions of a corner.
\<close>

definition on_straight_side :: "int \<Rightarrow> int \<Rightarrow> int \<Rightarrow> int \<Rightarrow> int \<Rightarrow> point \<Rightarrow> bool" where
  "on_straight_side x1 y1 x2 y2 radius p =
     (case p of (x, y) \<Rightarrow>
        ((y = real_of_int y1 \<or> y = real_of_int y2)
           \<and> real_of_int (x1 + radius) \<le> x \<and> x \<le> real_of_int (x2 - radius))
      \<or> ((x = real_of_int x1 \<or> x = real_of_int x2)
           \<and> real_of_int (y1 + radius) \<le> y \<and> y \<le> real_of_int (y2 - radius)))"

definition on_corner_arc :: "int \<Rightarrow> int \<Rightarrow> int \<Rightarrow> int \<Rightarrow> int \<Rightarrow> point \<Rightarrow> bool" where
  "on_corner_arc cx cy radius qx qy p =
     (case p of (x, y) \<Rightarrow>
        (x - real_of_int cx)\<^sup>2 + (y - real_of_int cy)\<^sup>2 = (real_of_int radius)\<^sup>2
      \<and> 0 \<le> real_of_int qx * (x - real_of_int cx)
      \<and> 0 \<le> real_of_int qy * (y - real_of_int cy))"

definition on_rounded_rect :: "int \<Rightarrow> int \<Rightarrow> int \<Rightarrow> int \<Rightarrow> int \<Rightarrow> point \<Rightarrow> bool" where
  "on_rounded_rect x1 y1 x2 y2 radius p =
     (on_straight_side x1 y1 x2 y2 radius p
      \<or> on_corner_arc (x2 - radius) (y1 + radius) radius 1 (- 1) p
      \<or> on_corner_arc (x2 - radius) (y2 - radius) radius 1 1 p
      \<or> on_corner_arc (x1 + radius) (y2 - radius) radius (- 1) 1 p
      \<or> on_corner_arc (x1 + radius) (y1 + radius) radius (- 1) (- 1) p)"

section \<open>gui.py: the launcher and its detail windows\<close>

text \<open>The four emoji string literals of the source; no code looks inside them.\<close>

datatype emoji = Cardiac_emoji | Nervous_emoji | Musculoskeletal_emoji | Dental_emoji

datatype window_class = CardiacWindow | NervousWindow | MusculoskeletalWindow | DentalWindow

text \<open>
  The two callbacks bound to keys: \<^verbatim>\<open>lambda e: self.root.quit()\<close> and
  \<^verbatim>\<open>lambda e: self.window.destroy()\<close>, the latter with the window it closes over.
\<close>

datatype handler = Quit | Destroy nat

record toplevel =
  win_id :: nat
  win_class :: window_class
  win_bindings :: "(string \<times> handler) list"

record modern_button =
  btn_text :: string
  btn_emoji :: emoji
  btn_command :: "(string \<times> emoji) option"
  current_color :: string
  btn_border :: "line_item option"
  grid_row :: nat
  grid_column :: nat

text \<open>
  The application: whether the main loop is running, the key bindings of the root window,
  the buttons of the launcher, and the detail windows that are open.
\<close>

record app =
  running :: bool
  root_bindings :: "(string \<times> handler) list"
  buttons :: "modern_button list"
  windows :: "toplevel list"
  next_id :: nat

text \<open>A new top-level window of the given class with the given key bindings.\<close>

definition new_toplevel :: "window_class \<Rightarrow> (nat \<Rightarrow> (string \<times> handler) list) \<Rightarrow> app \<Rightarrow> app" where
  "new_toplevel cls binds a =
     a\<lparr>windows := windows a @ [\<lparr>win_id = next_id a, win_class = cls, win_bindings = binds (next_id a)\<rparr>],
       next_id := Suc (next_id a)\<rparr>"

text \<open>\<^verbatim>\<open>CardiacWindow.__init__\<close>: a top-level window whose Escape key destroys it.\<close>

definition CardiacWindow_init :: "app \<Rightarrow> app" where
  "CardiacWindow_init a = new_toplevel CardiacWindow (\<lambda>w. [(''<Escape>'', Destroy w)]) a"

text \<open>
  Modelled from the spec: the constructors of \<^verbatim>\<open>NervousWindow\<close>,
  \<^verbatim>\<open>MusculoskeletalWindow\<close> and \<^verbatim>\<open>DentalWindow\<close>, which \<^verbatim>\<open>gui.py\<close> imports from
  \<^verbatim>\<open>Systems/\<close> and whose files are missing. The spec describes the four detail windows
  as near-identical placeholder windows and says that the Escape key closes the active
  window, so each is a top-level window of its class with that one binding.
\<close>

definition placeholder_window_init :: "window_class \<Rightarrow> app \<Rightarrow> app" where
  "placeholder_window_init cls a = new_toplevel cls (\<lambda>w. [(''<Escape>'', Destroy w)]) a"

definition open_system :: "string \<Rightarrow> emoji \<Rightarrow> app \<Rightarrow> app" where
  "open_system system_name em a =
     (if system_name = ''Cardiac System'' then CardiacWindow_init a
      else if system_name = ''Nervous System'' then placeholder_window_init NervousWindow a
      else if system_name = ''Musculoskeletal System''
        then placeholder_window_init MusculoskeletalWindow a
      else if system_name = ''Dental System'' then placeholder_window_init DentalWindow a
      else a)"

text \<open>The list \<^verbatim>\<open>systems\<close> of \<^verbatim>\<open>create_widgets\<close>; a command is the call its lambda makes.\<close>

record system_entry =
  sys_text :: string
  sys_emoji :: emoji
  sys_command :: "string \<times> emoji"

definition systems :: "system_entry list" where
  "systems =
     [\<lparr>sys_text = ''Cardiac System'', sys_emoji = Cardiac_emoji,
       sys_command = (''Cardiac System'', Cardiac_emoji)\<rparr>,
      \<lparr>sys_text = ''Nervous System'', sys_emoji = Nervous_emoji,
       sys_command = (''Nervous System'', Nervous_emoji)\<rparr>,
      \<lparr>sys_text = ''Musculoskeletal System'', sys_emoji = Musculoskeletal_emoji,
       sys_command = (''Musculoskeletal System'', Musculoskeletal_emoji)\<rparr>,
      \<lparr>sys_text = ''Dental System'', sys_emoji = Dental_emoji,
       sys_command = (''Dental System'', Dental_emoji)\<rparr>]"

text \<open>\<^verbatim>\<open>ModernButton.__init__\<close> with the fixed geometry of \<^verbatim>\<open>create_rounded_rect\<close>.\<close>

definition ModernButton :: "string \<Rightarrow> emoji \<Rightarrow> (string \<times> emoji) option \<Rightarrow> modern_button" where
  "ModernButton txt em cmd =
     \<lparr>btn_text = txt, btn_emoji = em, btn_command = cmd, current_color = ''#2a2a2a'',
      btn_border = create_rounded_rect_border 10 10 440 190 24 ''#404040'' 1,
      grid_row = 0, grid_column = 0\<rparr>"

definition create_widgets :: "modern_button list" where
  "create_widgets =
     map (\<lambda>(i, system).
            (ModernButton (sys_text system) (sys_emoji system) (Some (sys_command system)))
              \<lparr>grid_row := i div 2, grid_column := i mod 2\<rparr>)
         (enumerate 0 systems)"

text \<open>\<^verbatim>\<open>MedicalSystemsGUI.__init__\<close> followed by the start of the main loop.\<close>

definition MedicalSystemsGUI :: app where
  "MedicalSystemsGUI =
     \<lparr>running = True, root_bindings = [(''<Escape>'', Quit)], buttons = create_widgets,
      windows = [], next_id = 0\<rparr>"

text \<open>\<^verbatim>\<open>ModernButton.on_release\<close>: the hover colour, then the command if there is one.\<close>

definition on_release :: "modern_button \<Rightarrow> app \<Rightarrow> modern_button \<times> app" where
  "on_release b a =
     (b\<lparr>current_color := ''#3a3a3a''\<rparr>,
      (case btn_command b of
         None \<Rightarrow> a
       | Some (system_name, em) \<Rightarrow> open_system system_name em a))"

text \<open>
  What the callbacks do: \<^verbatim>\<open>quit\<close> ends the main loop, \<^verbatim>\<open>destroy\<close> removes the one window.
\<close>

fun run_handler :: "handler \<Rightarrow> app \<Rightarrow> app" where
  "run_handler Quit a = a\<lparr>running := False\<rparr>"
| "run_handler (Destroy w) a = a\<lparr>windows := filter (\<lambda>t. win_id t \<noteq> w) (windows a)\<rparr>"

text \<open>
  A key event goes to the window that has the keyboard, the root window or one of the
  detail windows, and runs what that window has bound to it. A binding of the root window
  does not apply inside another top-level window.
\<close>

datatype active_window = Root | Detail nat

definition key_press :: "string \<Rightarrow> active_window \<Rightarrow> app \<Rightarrow> app" where
  "key_press event w a =
     (if \<not> running a then a
      else
        (case w of
           Root \<Rightarrow>
             (case map_of (root_bindings a) event of
                None \<Rightarrow> a
              | Some h \<Rightarrow> run_handler h a)
         | Detail k \<Rightarrow>
             (case find (\<lambda>t. win_id t = k) (windows a) of
                None \<Rightarrow> a
              | Some t \<Rightarrow>
                  (case map_of (win_bindings t) event of
                     None \<Rightarrow> a
                   | Some h \<Rightarrow> run_handler h a))))"

text \<open>
  Releasing the mouse on the button at position \<open>k\<close> of the launcher: \<open>on_release\<close> of
  that button, which is put back in its place.
\<close>

definition button_released :: "nat \<Rightarrow> app \<Rightarrow> app" where
  "button_released k a =
     (if k < length (buttons a) then
        (case on_release (buttons a ! k) a of
           (b, a') \<Rightarrow> a'\<lparr>buttons := (buttons a')[k := b]\<rparr>)
      else a)"

text \<open>The states of the launcher: its start, and what button releases and keys lead to.\<close>

inductive reachable :: "app \<Rightarrow> bool" where
  start: "reachable MedicalSystemsGUI"
| release: "reachable a \<Longrightarrow> reachable (button_released k a)"
| key: "reachable a \<Longrightarrow> reachable (key_press event w a)"

code_pred reachable .

text \<open>
  What holds of the windows in every such state: the root window has its one binding, the
  open detail windows have different identifiers below the next one to be given out, and
  each has the one binding of its constructor.
\<close>

definition windows_ok :: "app \<Rightarrow> bool" where
  "windows_ok a =
     (root_bindings a = [(''<Escape>'', Quit)]
      \<and> distinct (map win_id (windows a))
      \<and> list_all (\<lambda>t. win_id t < next_id a
                       \<and> win_bindings t = [(''<Escape>'', Destroy (win_id t))]) (windows a))"

section \<open>What one file contributes to the scene\<close>

text \<open>
  The actor that the round of the loading loop for the file at position \<open>idx\<close> appends
  to \<^verbatim>\<open>actors\<close> (none when the \<^verbatim>\<open>try\<close> block raised), and the line that round prints.
\<close>

definition loaded_actor :: "'m toolkit \<Rightarrow> nat \<times> path \<Rightarrow> 'm actor list" where
  "loaded_actor tk x =
     (case snd (try_block tk (fst x) (snd x)) of Inl e \<Rightarrow> [] | Inr a \<Rightarrow> [a])"

definition load_report :: "'m toolkit \<Rightarrow> nat \<times> path \<Rightarrow> message" where
  "load_report tk x =
     (case snd (try_block tk (fst x) (snd x)) of
        Inl e \<Rightarrow> Could_not_load (path_name (snd x)) e
      | Inr a \<Rightarrow> Loaded (path_name (snd x)))"

section \<open>Sample inputs\<close>

text \<open>
  A toolkit whose meshes are numbers: every file parses except one named \<^verbatim>\<open>bad.obj\<close>,
  and a new actor starts with property values other than the viewer's.
\<close>

definition sample_toolkit :: "nat toolkit" where
  "sample_toolkit =
     \<lparr>pv_read = (\<lambda>p. if path_name p = ''bad.obj'' then Inl ''not a mesh'' else Inr (length p)),
      compute_normals = (\<lambda>m. Inr m),
      add_mesh = (\<lambda>m c n. Inr
        \<lparr>actor_name = n, actor_mesh = m,
         GetProperty = \<lparr>color = c, ambient = 0, diffuse = 1, specular = 0, specular_power = 1,
                        interp = Gouraud, opacity = 0.5\<rparr>\<rparr>),
      path_stem = path_name\<rparr>"

definition sample_files :: "path list" where
  "sample_files = [[''heart'', ''aorta.obj''], [''heart'', ''bad.obj''], [''heart'', ''vein.obj'']]"

definition many_files :: "path list" where
  "many_files = map (\<lambda>k. [''heart'', ''part'' @ replicate k CHR ''a'' @ ''.obj'']) [0..<16]"








text \<open>The mesh folder without any mesh file in it.\<close>

definition no_obj_fs :: filesystem where
  "no_obj_fs = [OBJ_FOLDER Windows \<mapsto> [''readme.txt'', ''heart.stl'']]"

text \<open>Two actors as the viewer leaves them.\<close>

definition sample_actors :: "nat actor list" where
  "sample_actors =
     [\<lparr>actor_name = ''aorta'', actor_mesh = 7,
       GetProperty = \<lparr>color = (0.85, 0.45, 0.45), ambient = 0.35, diffuse = 0.65,
                      specular = 0.15, specular_power = 8, interp = Phong, opacity = 1\<rparr>\<rparr>,
      \<lparr>actor_name = ''vein'', actor_mesh = 9,
       GetProperty = \<lparr>color = (0.60, 0.70, 0.85), ambient = 0.35, diffuse = 0.65,
                      specular = 0.15, specular_power = 8, interp = Phong, opacity = 1\<rparr>\<rparr>]"

text \<open>The launcher after the first two buttons have been released.\<close>

definition sample_app :: app where
  "sample_app = button_released 1 (button_released 0 MedicalSystemsGUI)"

section \<open>The palette and the loading loop\<close>

lemma ALL_COLORS_parts:
  "ALL_COLORS = HEART_COLORS muscle_tissue @ HEART_COLORS muscle_tissue
                @ HEART_COLORS arterial @ HEART_COLORS venous"
  by (simp add: ALL_COLORS_def list_times_def numeral_2_eq_2)

lemma length_ALL_COLORS: "length ALL_COLORS = 14"
  by (simp add: ALL_COLORS_parts)

lemma actors_load_loop:
  "actors (load_loop tk xs sc) = actors sc @ concat (map (loaded_actor tk) xs)"
proof (induction xs arbitrary: sc)
  case Nil
  show ?case by simp
next
  case (Cons x xs)
  obtain idx f where x: "x = (idx, f)" by (cases x)
  obtain ms r where tb: "try_block tk idx f = (ms, r)" by (cases "try_block tk idx f")
  show ?case
    by (cases r) (simp_all add: Cons.IH x tb loop_body_def loaded_actor_def)
qed

lemma printed_load_loop:
  "printed (load_loop tk xs sc) = printed sc @ map (load_report tk) xs"
proof (induction xs arbitrary: sc)
  case Nil
  show ?case by simp
next
  case (Cons x xs)
  obtain idx f where x: "x = (idx, f)" by (cases x)
  obtain ms r where tb: "try_block tk idx f = (ms, r)" by (cases "try_block tk idx f")
  show ?case
    by (cases r) (simp_all add: Cons.IH x tb loop_body_def load_report_def)
qed

lemma meshes_load_loop:
  "meshes (load_loop tk xs sc) =
     meshes sc @ concat (map (\<lambda>x. fst (try_block tk (fst x) (snd x))) xs)"
proof (induction xs arbitrary: sc)
  case Nil
  show ?case by simp
next
  case (Cons x xs)
  obtain idx f where x: "x = (idx, f)" by (cases x)
  obtain ms r where tb: "try_block tk idx f = (ms, r)" by (cases "try_block tk idx f")
  show ?case
    by (cases r) (simp_all add: Cons.IH x tb loop_body_def)
qed

lemma enumerate_member:
  "i < length xs \<Longrightarrow> (i, xs ! i) \<in> set (enumerate 0 xs)"
  by (simp add: in_set_enumerate_eq)

lemma actor_in_loop:
  assumes "i < length obj_files" and "try_block tk i (obj_files ! i) = (ms, Inr a)"
  shows "a \<in> set (actors (load_loop tk (enumerate 0 obj_files) sc))"
proof -
  have "(i, obj_files ! i) \<in> set (enumerate 0 obj_files)"
    using assms(1) by (rule enumerate_member)
  moreover have "a \<in> set (loaded_actor tk (i, obj_files ! i))"
    using assms(2) by (simp add: loaded_actor_def)
  ultimately show ?thesis
    by (auto simp: actors_load_loop)
qed

lemma actor_from_loop:
  assumes "a \<in> set (actors (load_loop tk (enumerate 0 obj_files) sc))" and "a \<notin> set (actors sc)"
  shows "\<exists>i ms. i < length obj_files \<and> try_block tk i (obj_files ! i) = (ms, Inr a)"
proof -
  from assms obtain x where mem: "x \<in> set (enumerate 0 obj_files)"
    and r: "a \<in> set (loaded_actor tk x)"
    by (auto simp: actors_load_loop)
  from mem have i: "fst x < length obj_files" and f: "snd x = obj_files ! fst x"
    by (auto simp: in_set_enumerate_eq)
  from r have "snd (try_block tk (fst x) (snd x)) = Inr a"
    by (auto simp: loaded_actor_def split: sum.splits)
  then have "try_block tk (fst x) (obj_files ! fst x) = (fst (try_block tk (fst x) (snd x)), Inr a)"
    using f by (metis prod.collapse)
  with i show ?thesis by blast
qed

lemma try_block_material:
  assumes "try_block tk idx f = (ms, Inr a)"
  shows "\<exists>a0. a = apply_realistic_material a0 (ALL_COLORS ! (idx mod length ALL_COLORS))"
  using assms by (auto simp: try_block_def Let_def split: sum.splits)

lemma try_block_read_fails:
  "pv_read tk f = Inl e \<Longrightarrow> try_block tk idx f = ([], Inl e)"
  by (simp add: try_block_def)

lemma viewer_returns:
  assumes "create_realistic_heart_viewer tk obj_files = (out, Returned pl)"
  shows "plot_actors pl = concat (map (loaded_actor tk) (enumerate 0 obj_files))"
    and "out = [Loading_and_rendering, Rule_line] @ map (load_report tk) (enumerate 0 obj_files)
               @ [Rule_line, Successfully_loaded (length (plot_actors pl))]"
    and "plot_actors pl \<noteq> []"
    and "slider pl = \<lparr>slider_range = (0.1, 1.0), slider_value = DEFAULT_OPACITY\<rparr>"
  using assms
  by (auto simp: create_realistic_heart_viewer_def Let_def actors_load_loop printed_load_loop
      split: if_splits)

lemma viewer_printed:
  "set (map (load_report tk) (enumerate 0 obj_files))
     \<subseteq> set (fst (create_realistic_heart_viewer tk obj_files))"
  by (auto simp: create_realistic_heart_viewer_def Let_def printed_load_loop)

lemma viewer_returns_if_actor:
  assumes "i < length obj_files" and "try_block tk i (obj_files ! i) = (ms, Inr a)"
  shows "\<exists>out pl. create_realistic_heart_viewer tk obj_files = (out, Returned pl)
           \<and> a \<in> set (plot_actors pl)"
proof -
  let ?sc = "load_loop tk (enumerate 0 obj_files)
               \<lparr>actors = [], meshes = [], printed = [Loading_and_rendering, Rule_line]\<rparr>"
  have "a \<in> set (actors ?sc)" using assms by (rule actor_in_loop)
  then have "actors ?sc \<noteq> []" by auto
  with \<open>a \<in> set (actors ?sc)\<close> show ?thesis
    by (simp add: create_realistic_heart_viewer_def Let_def)
qed

section \<open>The sample inputs evaluated\<close>

lemma sample_try_block:
  "p \<noteq> [] \<Longrightarrow> last p \<noteq> ''bad.obj'' \<Longrightarrow>
   \<exists>a. try_block sample_toolkit idx p = ([length p], Inr a) \<and> actor_name a = last p"
  by (simp add: try_block_def sample_toolkit_def path_name_def Let_def
      apply_realistic_material_def)

lemma sample_viewer:
  "\<exists>out pl a. create_realistic_heart_viewer sample_toolkit sample_files = (out, Returned pl)
      \<and> a \<in> set (plot_actors pl) \<and> actor_name a = ''vein.obj''"
proof -
  have "sample_files ! 2 = [''heart'', ''vein.obj'']" by (simp add: sample_files_def)
  then obtain a where tb: "try_block sample_toolkit 2 (sample_files ! 2) = ([2], Inr a)"
    and n: "actor_name a = ''vein.obj''"
    using sample_try_block [of "sample_files ! 2" 2] by auto
  have "2 < length sample_files" by (simp add: sample_files_def)
  from viewer_returns_if_actor [OF this tb] n show ?thesis by blast
qed

section \<open>C1: the colour of the mesh at position i\<close>

text \<open>
  Claim C1. The palette \<open>ALL_COLORS\<close> is the four muscle-tissue tones twice, then the three
  arterial tones, then the three venous tones, fourteen colours in all. A file at position
  \<open>i\<close> of the list handed to the viewer whose \<^verbatim>\<open>try\<close> block comes through gets an actor
  of colour \<open>ALL_COLORS ! (i mod 14)\<close>, that actor is in the scene the viewer returns, and
  every actor of the scene comes from some position in this way.
\<close>

theorem color_of_mesh_at_index:
  "ALL_COLORS = HEART_COLORS muscle_tissue @ HEART_COLORS muscle_tissue
                @ HEART_COLORS arterial @ HEART_COLORS venous
   \<and> length (HEART_COLORS muscle_tissue) = 4
   \<and> length (HEART_COLORS arterial) = 3
   \<and> length (HEART_COLORS venous) = 3
   \<and> length ALL_COLORS = 14
   \<and> (\<forall>i ms a. i < length obj_files \<and> try_block tk i (obj_files ! i) = (ms, Inr a) \<longrightarrow>
         color (GetProperty a) = ALL_COLORS ! (i mod 14)
         \<and> (\<exists>out pl. create_realistic_heart_viewer tk obj_files = (out, Returned pl)
                      \<and> a \<in> set (plot_actors pl)))
   \<and> (\<forall>out pl a. create_realistic_heart_viewer tk obj_files = (out, Returned pl)
         \<and> a \<in> set (plot_actors pl) \<longrightarrow>
         (\<exists>i ms. i < length obj_files \<and> try_block tk i (obj_files ! i) = (ms, Inr a)))"
proof -
  have col: "color (GetProperty a) = ALL_COLORS ! (i mod 14)"
    if "try_block tk i (obj_files ! i) = (ms, Inr a)" for i ms a
  proof -
    from try_block_material [OF that] obtain a0
      where "a = apply_realistic_material a0 (ALL_COLORS ! (i mod length ALL_COLORS))" ..
    then show ?thesis by (simp add: apply_realistic_material_def length_ALL_COLORS)
  qed
  have origin: "\<exists>i ms. i < length obj_files \<and> try_block tk i (obj_files ! i) = (ms, Inr a)"
    if "create_realistic_heart_viewer tk obj_files = (out, Returned pl)"
      and "a \<in> set (plot_actors pl)" for out pl a
  proof -
    let ?sc0 = "\<lparr>actors = [], meshes = [], printed = [Loading_and_rendering, Rule_line]\<rparr> :: 'a scene"
    from that have "a \<in> set (actors (load_loop tk (enumerate 0 obj_files) ?sc0))"
      by (auto simp: create_realistic_heart_viewer_def Let_def split: if_splits)
    then show ?thesis by (rule actor_from_loop) simp
  qed
  show ?thesis
    using col origin viewer_returns_if_actor [of _ obj_files tk]
    by (simp add: ALL_COLORS_parts) blast
qed

theorem color_of_mesh_at_index_witness:
  "15 < length many_files
   \<and> (\<exists>ms a. try_block sample_toolkit 15 (many_files ! 15) = (ms, Inr a)
         \<and> color (GetProperty a) = (0.90, 0.50, 0.50)
         \<and> (\<exists>out pl. create_realistic_heart_viewer sample_toolkit many_files = (out, Returned pl)
                      \<and> a \<in> set (plot_actors pl)))"
proof -
  have len: "15 < length many_files" by (simp add: many_files_def)
  have "many_files ! 15 = [''heart'', ''part'' @ replicate 15 CHR ''a'' @ ''.obj'']"
    by (simp add: many_files_def)
  then obtain ms a where tb: "try_block sample_toolkit 15 (many_files ! 15) = (ms, Inr a)"
    using sample_try_block [of "many_files ! 15" 15] by auto
  have "ALL_COLORS ! (15 mod 14) = (0.90, 0.50, 0.50)"
    by (simp add: ALL_COLORS_parts)
  with color_of_mesh_at_index [of many_files sample_toolkit] len tb show ?thesis
    by metis
qed

section \<open>C6: the lighting preset\<close>

text \<open>
  Claim C6. Every actor in the scene that the viewer returns has ambient 0.35, diffuse 0.65,
  specular 0.15, specular power 8, Phong interpolation and opacity 1.0, whatever its
  position and colour.
\<close>

theorem lighting_preset_on_every_actor:
  assumes "create_realistic_heart_viewer tk obj_files = (out, Returned pl)"
    and "a \<in> set (plot_actors pl)"
  shows "ambient (GetProperty a) = 0.35 \<and> diffuse (GetProperty a) = 0.65
         \<and> specular (GetProperty a) = 0.15 \<and> specular_power (GetProperty a) = 8
         \<and> interp (GetProperty a) = Phong \<and> opacity (GetProperty a) = 1.0"
proof -
  let ?sc0 = "\<lparr>actors = [], meshes = [], printed = [Loading_and_rendering, Rule_line]\<rparr> :: 'a scene"
  from assms have "a \<in> set (actors (load_loop tk (enumerate 0 obj_files) ?sc0))"
    by (auto simp: create_realistic_heart_viewer_def Let_def split: if_splits)
  then have "\<exists>i ms. i < length obj_files \<and> try_block tk i (obj_files ! i) = (ms, Inr a)"
    by (rule actor_from_loop) simp
  then obtain i ms where "try_block tk i (obj_files ! i) = (ms, Inr a)" by blast
  from try_block_material [OF this] obtain a0 c where "a = apply_realistic_material a0 c"
    by blast
  then show ?thesis
    by (simp add: apply_realistic_material_def LIGHTING_CONFIG_def DEFAULT_OPACITY_def)
qed

theorem lighting_preset_on_every_actor_witness:
  "\<exists>out pl a. create_realistic_heart_viewer sample_toolkit sample_files = (out, Returned pl)
      \<and> a \<in> set (plot_actors pl) \<and> actor_name a = ''vein.obj''
      \<and> ambient (GetProperty a) = 0.35 \<and> diffuse (GetProperty a) = 0.65
      \<and> specular (GetProperty a) = 0.15 \<and> specular_power (GetProperty a) = 8
      \<and> interp (GetProperty a) = Phong \<and> opacity (GetProperty a) = 1.0"
proof -
  from sample_viewer obtain out pl a
    where v: "create_realistic_heart_viewer sample_toolkit sample_files = (out, Returned pl)"
      and a: "a \<in> set (plot_actors pl)" and n: "actor_name a = ''vein.obj''"
    by blast
  from lighting_preset_on_every_actor [OF v a] v a n show ?thesis by blast
qed

section \<open>The pattern and the folder listing\<close>

lemma fnmatchcase_literal:
  "CHR ''*'' \<notin> set ps \<Longrightarrow> fnmatchcase ps s = (s = ps)"
  by (induction ps s rule: fnmatchcase.induct) auto

lemma fnmatchcase_star:
  "fnmatchcase (CHR ''*'' # ps) s = (\<exists>u. suffix u s \<and> fnmatchcase ps u)"
proof (induction s)
  case Nil
  show ?case by simp
next
  case (Cons c t)
  show ?case by (auto simp: Cons.IH suffix_Cons)
qed

lemma normcase_pattern: "normcase fl ''*.obj'' = ''*.obj''"
  by (cases fl) (simp_all add: lower_char_def)

text \<open>
  A name matches \<^verbatim>\<open>*.obj\<close> when it ends in \<^verbatim>\<open>.obj\<close>: as it is written on POSIX, in
  any mix of capitals on Windows.
\<close>

lemma fnmatch_star_obj: "fnmatch fl ''*.obj'' name = suffix ''.obj'' (normcase fl name)"
  by (simp add: fnmatch_def normcase_pattern fnmatchcase_star fnmatchcase_literal)

lemma glob_obj:
  "fs folder = Some entries \<Longrightarrow>
   glob fl fs folder ''*.obj''
     = map (\<lambda>n. folder @ [n]) (filter (\<lambda>n. suffix ''.obj'' (normcase fl n)) entries)"
proof -
  have "fnmatch fl ''*.obj'' = (\<lambda>n. suffix ''.obj'' (normcase fl n))"
    by (rule ext) (rule fnmatch_star_obj)
  then show "fs folder = Some entries \<Longrightarrow> ?thesis" by (simp add: glob_def)
qed













section \<open>C4: the list of mesh files\<close>



section \<open>C10: the order in which the folder is listed does not matter\<close>




section \<open>Leaving at startup\<close>

lemma load_obj_files_no_folder:
  "fs folder = None \<Longrightarrow>
   load_obj_files fl fs folder
     = ([Folder_does_not_exist folder, Please_create_folder], SystemExit 1)"
  by (simp add: load_obj_files_def)

lemma load_obj_files_no_obj:
  assumes "fs folder = Some entries"
    and "\<forall>n \<in> set entries. \<not> suffix ''.obj'' (normcase fl n)"
  shows "load_obj_files fl fs folder = ([No_obj_files_found folder], SystemExit 1)"
proof -
  have "filter (\<lambda>n. suffix ''.obj'' (normcase fl n)) entries = []"
    using assms(2) by (simp add: filter_empty_conv)
  then have "glob fl fs folder ''*.obj'' = []"
    using glob_obj [of fs folder entries fl] assms(1) by simp
  then show ?thesis using assms(1) by (simp add: load_obj_files_def)
qed

lemma main_exits_with_loader:
  "load_obj_files fl fs (OBJ_FOLDER fl) = (out, SystemExit code) \<Longrightarrow>
   main fl fs tk = (Title_banner # out, SystemExit code)"
  by (simp add: main_def)

lemma report_in_viewer_output:
  assumes "i < length obj_files"
  shows "load_report tk (i, obj_files ! i) \<in> set (fst (create_realistic_heart_viewer tk obj_files))"
proof -
  have "(i, obj_files ! i) \<in> set (enumerate 0 obj_files)"
    using assms by (rule enumerate_member)
  then have "load_report tk (i, obj_files ! i) \<in> set (map (load_report tk) (enumerate 0 obj_files))"
    by simp
  then show ?thesis using viewer_printed by blast
qed

section \<open>C2: failures at startup\<close>

text \<open>
  Claim C2. When the mesh folder does not exist, or exists and holds no entry whose name
  ends in \<^verbatim>\<open>.obj\<close> (as written on POSIX, in any mix of capitals on Windows),
  \<open>load_obj_files\<close> prints a message and exits with code 1, and so does \<open>main\<close>. When a file of the list does not parse, the viewer prints a warning that
  names it, adds no mesh and no actor for it, and still loads every other file: the actor
  of each file whose \<^verbatim>\<open>try\<close> block comes through is in the scene, with its line in the
  output. The scene returned holds exactly the actors of those files, in order.
\<close>

theorem startup_failures:
  "(fs folder = None \<longrightarrow>
      load_obj_files fl fs folder
        = ([Folder_does_not_exist folder, Please_create_folder], SystemExit 1))
   \<and> (fs folder = Some entries
        \<and> (\<forall>n \<in> set entries. \<not> suffix ''.obj'' (normcase fl n)) \<longrightarrow>
      load_obj_files fl fs folder = ([No_obj_files_found folder], SystemExit 1))
   \<and> (load_obj_files fl fs (OBJ_FOLDER fl) = (out, SystemExit code) \<longrightarrow>
      main fl fs tk = (Title_banner # out, SystemExit code))
   \<and> (i < length obj_files \<and> pv_read tk (obj_files ! i) = Inl e \<longrightarrow>
      try_block tk i (obj_files ! i) = ([], Inl e)
      \<and> loaded_actor tk (i, obj_files ! i) = []
      \<and> Could_not_load (path_name (obj_files ! i)) e
           \<in> set (fst (create_realistic_heart_viewer tk obj_files))
      \<and> (\<forall>j ms a. j < length obj_files \<and> try_block tk j (obj_files ! j) = (ms, Inr a) \<longrightarrow>
            (\<exists>out' pl. create_realistic_heart_viewer tk obj_files = (out', Returned pl)
               \<and> a \<in> set (plot_actors pl)
               \<and> Loaded (path_name (obj_files ! j)) \<in> set out')))
   \<and> (\<forall>out' pl. create_realistic_heart_viewer tk obj_files = (out', Returned pl) \<longrightarrow>
         plot_actors pl = concat (map (loaded_actor tk) (enumerate 0 obj_files))
         \<and> out' = [Loading_and_rendering, Rule_line]
                   @ map (load_report tk) (enumerate 0 obj_files)
                   @ [Rule_line, Successfully_loaded (length (plot_actors pl))])"
proof -
  have skip: "try_block tk i (obj_files ! i) = ([], Inl e)
      \<and> loaded_actor tk (i, obj_files ! i) = []
      \<and> Could_not_load (path_name (obj_files ! i)) e
           \<in> set (fst (create_realistic_heart_viewer tk obj_files))"
    if i: "i < length obj_files" and r: "pv_read tk (obj_files ! i) = Inl e"
  proof -
    have tb: "try_block tk i (obj_files ! i) = ([], Inl e)"
      using r by (rule try_block_read_fails)
    then have "load_report tk (i, obj_files ! i) = Could_not_load (path_name (obj_files ! i)) e"
      by (simp add: load_report_def)
    with report_in_viewer_output [OF i, of tk] tb show ?thesis
      by (simp add: loaded_actor_def)
  qed
  have rest: "\<exists>out' pl. create_realistic_heart_viewer tk obj_files = (out', Returned pl)
               \<and> a \<in> set (plot_actors pl)
               \<and> Loaded (path_name (obj_files ! j)) \<in> set out'"
    if j: "j < length obj_files" and tb: "try_block tk j (obj_files ! j) = (ms, Inr a)"
    for j ms a
  proof -
    from viewer_returns_if_actor [OF j tb] obtain out' pl
      where v: "create_realistic_heart_viewer tk obj_files = (out', Returned pl)"
        and a: "a \<in> set (plot_actors pl)" by blast
    have "load_report tk (j, obj_files ! j) = Loaded (path_name (obj_files ! j))"
      using tb by (simp add: load_report_def)
    with report_in_viewer_output [OF j, of tk] v have "Loaded (path_name (obj_files ! j)) \<in> set out'"
      by simp
    with v a show ?thesis by blast
  qed
  show ?thesis
    using load_obj_files_no_folder [of fs folder fl]
      load_obj_files_no_obj [of fs folder entries fl]
      main_exits_with_loader [of fl fs out code tk] skip rest
      viewer_returns(1,2) [of tk obj_files]
    by (intro conjI impI allI) blast+
qed

theorem startup_failures_witness:
  "Map.empty (OBJ_FOLDER Windows) = (None :: string list option)
   \<and> main Windows Map.empty sample_toolkit
       = ([Title_banner, Folder_does_not_exist (OBJ_FOLDER Windows), Please_create_folder],
          SystemExit 1)
   \<and> no_obj_fs (OBJ_FOLDER Windows) = Some [''readme.txt'', ''heart.stl'']
   \<and> main Windows no_obj_fs sample_toolkit
       = ([Title_banner, No_obj_files_found (OBJ_FOLDER Windows)], SystemExit 1)
   \<and> 1 < length sample_files
   \<and> pv_read sample_toolkit (sample_files ! 1) = Inl ''not a mesh''
   \<and> Could_not_load ''bad.obj'' ''not a mesh''
        \<in> set (fst (create_realistic_heart_viewer sample_toolkit sample_files))
   \<and> (\<exists>out pl a. create_realistic_heart_viewer sample_toolkit sample_files = (out, Returned pl)
         \<and> a \<in> set (plot_actors pl) \<and> actor_name a = ''vein.obj''
         \<and> Loaded ''vein.obj'' \<in> set out)"
proof -
  have none: "Map.empty (OBJ_FOLDER Windows) = (None :: string list option)" by simp
  have some: "no_obj_fs (OBJ_FOLDER Windows) = Some [''readme.txt'', ''heart.stl'']"
    by (simp add: no_obj_fs_def)
  have noobj: "\<forall>n \<in> set [''readme.txt'', ''heart.stl'']. \<not> suffix ''.obj'' (normcase Windows n)"
    by (simp add: suffix_def lower_char_def)
  have len: "1 < length sample_files" and len2: "2 < length sample_files"
    by (simp_all add: sample_files_def)
  have bad: "pv_read sample_toolkit (sample_files ! 1) = Inl ''not a mesh''"
    and names: "path_name (sample_files ! 1) = ''bad.obj''"
      "path_name (sample_files ! 2) = ''vein.obj''"
    by (simp_all add: sample_files_def sample_toolkit_def path_name_def)
  have "sample_files ! 2 = [''heart'', ''vein.obj'']" by (simp add: sample_files_def)
  then obtain a where tb: "try_block sample_toolkit 2 (sample_files ! 2) = ([2], Inr a)"
    and n: "actor_name a = ''vein.obj''"
    using sample_try_block [of "sample_files ! 2" 2] by auto
  note t1 = startup_failures [where fl = Windows and fs = Map.empty
      and folder = "OBJ_FOLDER Windows"
      and tk = sample_toolkit and i = 1 and obj_files = sample_files and e = "''not a mesh''"
      and out = "[Folder_does_not_exist (OBJ_FOLDER Windows), Please_create_folder]"
      and code = 1]
  note t2 = startup_failures [where fl = Windows and fs = no_obj_fs
      and folder = "OBJ_FOLDER Windows"
      and entries = "[''readme.txt'', ''heart.stl'']" and tk = sample_toolkit
      and out = "[No_obj_files_found (OBJ_FOLDER Windows)]" and code = 1]
  have l1: "load_obj_files Windows Map.empty (OBJ_FOLDER Windows)
       = ([Folder_does_not_exist (OBJ_FOLDER Windows), Please_create_folder], SystemExit 1)"
    using t1 none by blast
  have m1: "main Windows Map.empty sample_toolkit
       = ([Title_banner, Folder_does_not_exist (OBJ_FOLDER Windows), Please_create_folder],
          SystemExit 1)"
    using t1 l1 by blast
  have l2: "load_obj_files Windows no_obj_fs (OBJ_FOLDER Windows)
       = ([No_obj_files_found (OBJ_FOLDER Windows)], SystemExit 1)"
    using t2 some noobj by blast
  have m2: "main Windows no_obj_fs sample_toolkit
       = ([Title_banner, No_obj_files_found (OBJ_FOLDER Windows)], SystemExit 1)"
    using t2 l2 by blast
  from t1 len bad have part4:
    "Could_not_load (path_name (sample_files ! 1)) ''not a mesh''
        \<in> set (fst (create_realistic_heart_viewer sample_toolkit sample_files))
     \<and> (\<forall>j ms a. j < length sample_files
            \<and> try_block sample_toolkit j (sample_files ! j) = (ms, Inr a) \<longrightarrow>
            (\<exists>out' pl. create_realistic_heart_viewer sample_toolkit sample_files = (out', Returned pl)
               \<and> a \<in> set (plot_actors pl)
               \<and> Loaded (path_name (sample_files ! j)) \<in> set out'))"
    by blast
  then have v: "Could_not_load ''bad.obj'' ''not a mesh''
        \<in> set (fst (create_realistic_heart_viewer sample_toolkit sample_files))"
    using names by simp
  from part4 len2 tb
  have "\<exists>out' pl. create_realistic_heart_viewer sample_toolkit sample_files = (out', Returned pl)
               \<and> a \<in> set (plot_actors pl)
               \<and> Loaded (path_name (sample_files ! 2)) \<in> set out'"
    by blast
  then have others: "\<exists>out' pl. create_realistic_heart_viewer sample_toolkit sample_files = (out', Returned pl)
               \<and> a \<in> set (plot_actors pl) \<and> Loaded ''vein.obj'' \<in> set out'"
    using names by simp
  from none m1 some m2 len bad v others n show ?thesis by blast
qed

section \<open>C9: the opacity slider\<close>

text \<open>
  Claim C9. \<open>update_opacity v\<close> leaves the list of actors as long as it was and sets the
  opacity of each actor to \<open>v\<close>; the colour, ambient, diffuse, specular, specular power
  and interpolation of each actor, its name and its mesh stay as they were. The slider of
  the viewer is created with the range from 0.1 to 1.0 and the value 1.0; when it is
  moved, the value it passes on lies in that range (and is the requested one when that is
  in range), the actors get that opacity, and the rest of the plotter is unchanged.
\<close>

theorem update_opacity_changes_opacity_only:
  "length (update_opacity v acts) = length acts
   \<and> (\<forall>i < length acts.
         opacity (GetProperty (update_opacity v acts ! i)) = v
         \<and> color (GetProperty (update_opacity v acts ! i)) = color (GetProperty (acts ! i))
         \<and> ambient (GetProperty (update_opacity v acts ! i)) = ambient (GetProperty (acts ! i))
         \<and> diffuse (GetProperty (update_opacity v acts ! i)) = diffuse (GetProperty (acts ! i))
         \<and> specular (GetProperty (update_opacity v acts ! i)) = specular (GetProperty (acts ! i))
         \<and> specular_power (GetProperty (update_opacity v acts ! i))
             = specular_power (GetProperty (acts ! i))
         \<and> interp (GetProperty (update_opacity v acts ! i)) = interp (GetProperty (acts ! i))
         \<and> actor_name (update_opacity v acts ! i) = actor_name (acts ! i)
         \<and> actor_mesh (update_opacity v acts ! i) = actor_mesh (acts ! i))
   \<and> (create_realistic_heart_viewer tk obj_files = (out, Returned pl) \<longrightarrow>
         slider_range (slider pl) = (0.1, 1.0)
         \<and> slider_value (slider pl) = 1.0
         \<and> 0.1 \<le> slider_value (slider (slider_moved raw pl))
         \<and> slider_value (slider (slider_moved raw pl)) \<le> 1.0
         \<and> (0.1 \<le> raw \<and> raw \<le> 1.0 \<longrightarrow> slider_value (slider (slider_moved raw pl)) = raw)
         \<and> plot_actors (slider_moved raw pl)
             = update_opacity (slider_value (slider (slider_moved raw pl))) (plot_actors pl)
         \<and> plot_meshes (slider_moved raw pl) = plot_meshes pl
         \<and> lights (slider_moved raw pl) = lights pl
         \<and> background (slider_moved raw pl) = background pl
         \<and> window_size (slider_moved raw pl) = window_size pl
         \<and> slider_range (slider (slider_moved raw pl)) = slider_range (slider pl))"
proof -
  have frame: "length (update_opacity v acts) = length acts
   \<and> (\<forall>i < length acts.
         opacity (GetProperty (update_opacity v acts ! i)) = v
         \<and> color (GetProperty (update_opacity v acts ! i)) = color (GetProperty (acts ! i))
         \<and> ambient (GetProperty (update_opacity v acts ! i)) = ambient (GetProperty (acts ! i))
         \<and> diffuse (GetProperty (update_opacity v acts ! i)) = diffuse (GetProperty (acts ! i))
         \<and> specular (GetProperty (update_opacity v acts ! i)) = specular (GetProperty (acts ! i))
         \<and> specular_power (GetProperty (update_opacity v acts ! i))
             = specular_power (GetProperty (acts ! i))
         \<and> interp (GetProperty (update_opacity v acts ! i)) = interp (GetProperty (acts ! i))
         \<and> actor_name (update_opacity v acts ! i) = actor_name (acts ! i)
         \<and> actor_mesh (update_opacity v acts ! i) = actor_mesh (acts ! i))"
    by (simp add: update_opacity_def)
  have sl: "slider_range (slider pl) = (0.1, 1.0)
         \<and> slider_value (slider pl) = 1.0
         \<and> 0.1 \<le> slider_value (slider (slider_moved raw pl))
         \<and> slider_value (slider (slider_moved raw pl)) \<le> 1.0
         \<and> (0.1 \<le> raw \<and> raw \<le> 1.0 \<longrightarrow> slider_value (slider (slider_moved raw pl)) = raw)
         \<and> plot_actors (slider_moved raw pl)
             = update_opacity (slider_value (slider (slider_moved raw pl))) (plot_actors pl)
         \<and> plot_meshes (slider_moved raw pl) = plot_meshes pl
         \<and> lights (slider_moved raw pl) = lights pl
         \<and> background (slider_moved raw pl) = background pl
         \<and> window_size (slider_moved raw pl) = window_size pl
         \<and> slider_range (slider (slider_moved raw pl)) = slider_range (slider pl)"
    if "create_realistic_heart_viewer tk obj_files = (out, Returned pl)"
  proof -
    from viewer_returns(4) [OF that]
    have s: "slider pl = \<lparr>slider_range = (0.1, 1.0), slider_value = DEFAULT_OPACITY\<rparr>" .
    show ?thesis
      by (simp add: s slider_moved_def Let_def DEFAULT_OPACITY_def)
  qed
  from frame sl show ?thesis by blast
qed

theorem update_opacity_changes_opacity_only_witness:
  "0 < length sample_actors
   \<and> opacity (GetProperty (update_opacity 0.4 sample_actors ! 0)) = 0.4
   \<and> color (GetProperty (update_opacity 0.4 sample_actors ! 0)) = (0.85, 0.45, 0.45)
   \<and> length (update_opacity 0.4 sample_actors) = 2
   \<and> (\<exists>out pl. create_realistic_heart_viewer sample_toolkit sample_files = (out, Returned pl)
         \<and> slider_value (slider (slider_moved 0.5 pl)) = 0.5
         \<and> plot_actors (slider_moved 0.5 pl) = update_opacity 0.5 (plot_actors pl))"
proof -
  have len: "0 < length sample_actors" and len2: "length sample_actors = 2"
    and c: "color (GetProperty (sample_actors ! 0)) = (0.85, 0.45, 0.45)"
    by (simp_all add: sample_actors_def)
  from sample_viewer obtain out pl
    where v: "create_realistic_heart_viewer sample_toolkit sample_files = (out, Returned pl)"
    by blast
  have r: "(0.1::real) \<le> 0.5 \<and> (0.5::real) \<le> 1.0" by simp
  note t = update_opacity_changes_opacity_only
    [where v = "0.4" and acts = sample_actors and tk = sample_toolkit and obj_files = sample_files
       and out = out and pl = pl and raw = "0.5"]
  from t len have f: "opacity (GetProperty (update_opacity 0.4 sample_actors ! 0)) = 0.4
      \<and> color (GetProperty (update_opacity 0.4 sample_actors ! 0))
          = color (GetProperty (sample_actors ! 0))
      \<and> length (update_opacity 0.4 sample_actors) = length sample_actors"
    by blast
  from t v r have sv: "slider_value (slider (slider_moved 0.5 pl)) = 0.5"
    and pa: "plot_actors (slider_moved 0.5 pl)
          = update_opacity (slider_value (slider (slider_moved 0.5 pl))) (plot_actors pl)"
    by blast+
  from pa have pa': "plot_actors (slider_moved 0.5 pl) = update_opacity 0.5 (plot_actors pl)"
    by (simp only: sv)
  from f have f': "opacity (GetProperty (update_opacity 0.4 sample_actors ! 0)) = 0.4
      \<and> color (GetProperty (update_opacity 0.4 sample_actors ! 0)) = (0.85, 0.45, 0.45)
      \<and> length (update_opacity 0.4 sample_actors) = 2"
    by (simp only: c len2)
  from len f' v sv pa' show ?thesis by blast
qed

section \<open>The windows of the launcher\<close>

lemma windows_ok_start: "windows_ok MedicalSystemsGUI"
  by (simp add: windows_ok_def MedicalSystemsGUI_def)

lemma windows_ok_new_toplevel:
  assumes "windows_ok a"
  shows "windows_ok (new_toplevel cls (\<lambda>w. [(''<Escape>'', Destroy w)]) a)"
proof -
  from assms have "\<forall>t \<in> set (windows a). win_id t < next_id a"
    by (simp add: windows_ok_def list_all_iff)
  then have "next_id a \<notin> win_id ` set (windows a)" by auto
  with assms show ?thesis
    by (auto simp: windows_ok_def new_toplevel_def list_all_iff less_Suc_eq)
qed

lemma windows_ok_open_system:
  "windows_ok a \<Longrightarrow> windows_ok (open_system n em a)"
  by (simp add: open_system_def CardiacWindow_init_def placeholder_window_init_def
      windows_ok_new_toplevel)

lemma windows_ok_buttons [simp]: "windows_ok (a\<lparr>buttons := bs\<rparr>) = windows_ok a"
  by (simp add: windows_ok_def)

lemma windows_ok_button_released:
  "windows_ok a \<Longrightarrow> windows_ok (button_released k a)"
  by (auto simp: button_released_def on_release_def windows_ok_open_system
      split: option.splits prod.splits)

lemma windows_ok_run_handler:
  assumes "windows_ok a"
  shows "windows_ok (run_handler h a)"
proof (cases h)
  case Quit
  with assms show ?thesis by (simp add: windows_ok_def)
next
  case (Destroy w)
  with assms show ?thesis
    by (auto simp: windows_ok_def list_all_iff distinct_map_filter)
qed

lemma windows_ok_key_press:
  "windows_ok a \<Longrightarrow> windows_ok (key_press event w a)"
  by (auto simp: key_press_def windows_ok_run_handler
      split: active_window.splits option.splits)

lemma reachable_windows_ok: "reachable a \<Longrightarrow> windows_ok a"
  by (induction rule: reachable.induct)
    (simp_all add: windows_ok_start windows_ok_button_released windows_ok_key_press)

lemma find_own_window:
  assumes "distinct (map win_id ws)" and "t \<in> set ws"
  shows "find (\<lambda>u. win_id u = win_id t) ws = Some t"
  using assms
proof (induction ws)
  case Nil
  then show ?case by simp
next
  case (Cons u ws)
  then show ?case by (cases "u = t") (auto simp: image_iff)
qed

lemma same_id_same_window:
  assumes "distinct (map win_id ws)" and "t \<in> set ws" and "u \<in> set ws"
  shows "(win_id u = win_id t) = (u = t)"
  using assms by (auto simp: distinct_map inj_on_def)

lemma filter_own_window:
  assumes "distinct (map win_id ws)" and "t \<in> set ws"
  shows "filter (\<lambda>u. win_id u \<noteq> win_id t) ws = filter (\<lambda>u. u \<noteq> t) ws"
  using same_id_same_window [OF assms] by (intro filter_cong) auto

lemma sample_app_windows:
  "windows sample_app =
     [\<lparr>win_id = 0, win_class = CardiacWindow, win_bindings = [(''<Escape>'', Destroy 0)]\<rparr>,
      \<lparr>win_id = 1, win_class = NervousWindow, win_bindings = [(''<Escape>'', Destroy 1)]\<rparr>]"
  by (simp add: sample_app_def button_released_def on_release_def MedicalSystemsGUI_def
      create_widgets_def systems_def ModernButton_def open_system_def CardiacWindow_init_def
      placeholder_window_init_def new_toplevel_def)

lemma sample_app_running: "running sample_app"
  by (simp add: sample_app_def button_released_def on_release_def MedicalSystemsGUI_def
      create_widgets_def systems_def ModernButton_def open_system_def CardiacWindow_init_def
      placeholder_window_init_def new_toplevel_def)

lemma sample_app_reachable: "reachable sample_app"
  unfolding sample_app_def by (intro reachable.release reachable.start)

section \<open>C5: the Escape key\<close>

text \<open>
  Claim C5. In every state of the launcher that can be reached, while the main loop runs:
  Escape in the main window ends the main loop and leaves the detail windows as they are;
  Escape in a detail window, of whichever class, removes that window and no other, and
  leaves the main loop running and the launcher as it was.
\<close>

theorem escape_closes_active_window:
  assumes "reachable a" and "running a"
  shows "running (key_press ''<Escape>'' Root a) = False
         \<and> windows (key_press ''<Escape>'' Root a) = windows a
         \<and> (\<forall>t \<in> set (windows a).
               windows (key_press ''<Escape>'' (Detail (win_id t)) a)
                 = filter (\<lambda>u. u \<noteq> t) (windows a)
               \<and> t \<notin> set (windows (key_press ''<Escape>'' (Detail (win_id t)) a))
               \<and> running (key_press ''<Escape>'' (Detail (win_id t)) a)
               \<and> buttons (key_press ''<Escape>'' (Detail (win_id t)) a) = buttons a
               \<and> root_bindings (key_press ''<Escape>'' (Detail (win_id t)) a) = root_bindings a)"
proof -
  from assms(1) have ok: "windows_ok a" by (rule reachable_windows_ok)
  then have rb: "root_bindings a = [(''<Escape>'', Quit)]"
    and d: "distinct (map win_id (windows a))"
    and b: "\<forall>t \<in> set (windows a). win_bindings t = [(''<Escape>'', Destroy (win_id t))]"
    by (simp_all add: windows_ok_def list_all_iff)
  have root: "key_press ''<Escape>'' Root a = a\<lparr>running := False\<rparr>"
    using assms(2) rb by (simp add: key_press_def)
  have detail: "key_press ''<Escape>'' (Detail (win_id t)) a
                  = a\<lparr>windows := filter (\<lambda>u. u \<noteq> t) (windows a)\<rparr>"
    if t: "t \<in> set (windows a)" for t
    using assms(2) find_own_window [OF d t] b t filter_own_window [OF d t]
    by (simp add: key_press_def)
  show ?thesis using root detail assms(2) by simp
qed

theorem escape_closes_active_window_witness:
  "reachable sample_app \<and> running sample_app
   \<and> map win_class (windows sample_app) = [CardiacWindow, NervousWindow]
   \<and> map win_class (windows (key_press ''<Escape>'' (Detail 1) sample_app)) = [CardiacWindow]
   \<and> running (key_press ''<Escape>'' (Detail 1) sample_app)
   \<and> running (key_press ''<Escape>'' Root sample_app) = False
   \<and> map win_class (windows (key_press ''<Escape>'' Root sample_app))
       = [CardiacWindow, NervousWindow]"
proof -
  let ?t = "\<lparr>win_id = 1, win_class = NervousWindow, win_bindings = [(''<Escape>'', Destroy 1)]\<rparr>"
  have t: "?t \<in> set (windows sample_app)" and i: "win_id ?t = 1"
    by (simp_all add: sample_app_windows)
  from escape_closes_active_window [OF sample_app_reachable sample_app_running] t
  have "running (key_press ''<Escape>'' Root sample_app) = False
      \<and> windows (key_press ''<Escape>'' Root sample_app) = windows sample_app
      \<and> windows (key_press ''<Escape>'' (Detail (win_id ?t)) sample_app)
          = filter (\<lambda>u. u \<noteq> ?t) (windows sample_app)
      \<and> running (key_press ''<Escape>'' (Detail (win_id ?t)) sample_app)"
    by blast
  then show ?thesis
    using sample_app_reachable sample_app_windows sample_app_running by simp
qed

section \<open>C7: four buttons, four windows\<close>

text \<open>
  Claim C7. The launcher builds four buttons, labelled Cardiac System, Nervous System,
  Musculoskeletal System and Dental System, in a grid of two by two, each with the call of
  \<open>open_system\<close> on its own name as its command. For each of the four names
  \<open>open_system\<close> constructs the window class of that name (\<open>CardiacWindow\<close>,
  \<open>NervousWindow\<close>, \<open>MusculoskeletalWindow\<close>, \<open>DentalWindow\<close>), which adds one window of
  that class; releasing the k-th button of the fresh launcher opens the k-th class.
\<close>

theorem four_buttons_open_four_windows:
  "map btn_text create_widgets
     = [''Cardiac System'', ''Nervous System'', ''Musculoskeletal System'', ''Dental System'']
   \<and> map btn_command create_widgets
     = [Some (''Cardiac System'', Cardiac_emoji), Some (''Nervous System'', Nervous_emoji),
        Some (''Musculoskeletal System'', Musculoskeletal_emoji),
        Some (''Dental System'', Dental_emoji)]
   \<and> map (\<lambda>b. (grid_row b, grid_column b)) create_widgets = [(0, 0), (0, 1), (1, 0), (1, 1)]
   \<and> open_system ''Cardiac System'' em a = CardiacWindow_init a
   \<and> open_system ''Nervous System'' em a = placeholder_window_init NervousWindow a
   \<and> open_system ''Musculoskeletal System'' em a
       = placeholder_window_init MusculoskeletalWindow a
   \<and> open_system ''Dental System'' em a = placeholder_window_init DentalWindow a
   \<and> map win_class (windows (open_system ''Cardiac System'' em a))
       = map win_class (windows a) @ [CardiacWindow]
   \<and> map win_class (windows (open_system ''Nervous System'' em a))
       = map win_class (windows a) @ [NervousWindow]
   \<and> map win_class (windows (open_system ''Musculoskeletal System'' em a))
       = map win_class (windows a) @ [MusculoskeletalWindow]
   \<and> map win_class (windows (open_system ''Dental System'' em a))
       = map win_class (windows a) @ [DentalWindow]
   \<and> map (\<lambda>k. map win_class (windows (button_released k MedicalSystemsGUI))) [0, 1, 2, 3]
       = [[CardiacWindow], [NervousWindow], [MusculoskeletalWindow], [DentalWindow]]"
  by (simp add: create_widgets_def systems_def ModernButton_def open_system_def
      CardiacWindow_init_def placeholder_window_init_def new_toplevel_def
      button_released_def on_release_def MedicalSystemsGUI_def)

section \<open>C8: an unknown system name\<close>

text \<open>
  Claim C8. For a name other than the four system names, \<open>open_system\<close> returns the
  application as it was: no window is opened and nothing else changes.
\<close>

theorem open_system_unknown_name:
  assumes "system_name \<notin> {''Cardiac System'', ''Nervous System'', ''Musculoskeletal System'',
                            ''Dental System''}"
  shows "open_system system_name em a = a"
  using assms by (simp add: open_system_def)

theorem open_system_unknown_name_witness:
  "''cardiac system'' \<notin> {''Cardiac System'', ''Nervous System'', ''Musculoskeletal System'',
                            ''Dental System''}
   \<and> open_system ''cardiac system'' Cardiac_emoji sample_app = sample_app"
proof -
  have n: "''cardiac system'' \<notin> {''Cardiac System'', ''Nervous System'',
             ''Musculoskeletal System'', ''Dental System''}"
    by simp
  from open_system_unknown_name [OF n] n show ?thesis by blast
qed

section \<open>The arcs of the button border\<close>

lemma py_range_90_181:
  "py_range 90 181 5 =
     [90, 95, 100, 105, 110, 115, 120, 125, 130, 135, 140, 145, 150, 155, 160, 165, 170, 175, 180]"
  by code_simp

lemma py_range_270_361:
  "py_range 270 361 5 =
     [270, 275, 280, 285, 290, 295, 300, 305, 310, 315, 320, 325, 330, 335, 340, 345, 350, 355,
      360]"
  by code_simp

lemma radians_180: "radians 180 = pi"
  by (simp add: radians_def)

lemma radians_360: "radians 360 = 2 * pi"
  by (simp add: radians_def)

lemma right_bottom_arc_last:
  "right_bottom_arc 10 10 440 190 24 ! 18 = (392, 166)"
  by (simp add: right_bottom_arc_def py_range_90_181 radians_180)

lemma left_top_arc_last:
  "left_top_arc 10 10 440 190 24 ! 18 = (58, 34)"
  by (simp add: left_top_arc_def py_range_270_361 radians_360)

lemma length_arcs:
  "length (right_bottom_arc 10 10 440 190 24) = 19" "length (left_top_arc 10 10 440 190 24) = 19"
  by (simp_all add: right_bottom_arc_def left_top_arc_def py_range_90_181 py_range_270_361)

text \<open>
  What does hold of the border, for any rectangle and any radius that is not negative: the
  points of the four side loops lie on the straight sides, and the points of each arc loop
  lie on the circle of radius \<open>radius\<close> around the centre of its corner, on the outward
  quarter for the right top and left bottom arcs and on the inward quarter for the right
  bottom and left top arcs.
\<close>

lemma py_range_up_step:
  "0 < step \<Longrightarrow> start < stop \<Longrightarrow>
   py_range start stop step = start # py_range (start + step) stop step"
  by (rule trans [OF py_range.simps]) simp

lemma py_range_up_done:
  "0 < step \<Longrightarrow> \<not> start < stop \<Longrightarrow> py_range start stop step = []"
  by (rule trans [OF py_range.simps]) simp

lemma py_range_bounds:
  "0 < step \<Longrightarrow> a \<in> set (py_range start stop step) \<Longrightarrow> start \<le> a \<and> a < stop"
proof (induction start stop step rule: py_range.induct)
  case (1 start stop step)
  show ?case
  proof (cases "start < stop")
    case True
    with "1.prems" have "a = start \<or> a \<in> set (py_range (start + step) stop step)"
      by (simp add: py_range_up_step)
    then show ?thesis
    proof
      assume "a = start"
      with True show ?thesis by simp
    next
      assume "a \<in> set (py_range (start + step) stop step)"
      with "1.IH"(1) "1.prems"(1) True have "start + step \<le> a \<and> a < stop" by simp
      with "1.prems"(1) show ?thesis by simp
    qed
  next
    case False
    with "1.prems" show ?thesis by (simp add: py_range_up_done)
  qed
qed

lemma radians_mono: "a \<le> b \<Longrightarrow> radians a \<le> radians b"
  by (simp add: radians_def divide_right_mono mult_right_mono)

lemma radians_values:
  "radians 0 = 0" "radians 90 = pi / 2" "radians 180 = pi" "radians 270 = 3 * pi / 2"
  "radians 360 = 2 * pi"
  by (simp_all add: radians_def)

lemma quadrant_signs:
  fixes a :: int
  shows "0 \<le> a \<Longrightarrow> a \<le> 90 \<Longrightarrow> 0 \<le> cos (radians a) \<and> 0 \<le> sin (radians a)"
    and "90 \<le> a \<Longrightarrow> a \<le> 180 \<Longrightarrow> cos (radians a) \<le> 0 \<and> 0 \<le> sin (radians a)"
    and "180 \<le> a \<Longrightarrow> a \<le> 270 \<Longrightarrow> cos (radians a) \<le> 0 \<and> sin (radians a) \<le> 0"
    and "270 \<le> a \<Longrightarrow> a \<le> 360 \<Longrightarrow> 0 \<le> cos (radians a) \<and> sin (radians a) \<le> 0"
proof -
  let ?t = "radians a"
  {
    assume "0 \<le> a" "a \<le> 90"
    then have "0 \<le> ?t" "?t \<le> pi / 2"
      using radians_mono [of 0 a] radians_mono [of a 90] by (simp_all add: radians_values)
    then show "0 \<le> cos ?t \<and> 0 \<le> sin ?t"
      using cos_ge_zero [of ?t] sin_ge_zero [of ?t] pi_ge_zero by simp
  next
    assume "90 \<le> a" "a \<le> 180"
    then have b: "pi / 2 \<le> ?t" "?t \<le> pi"
      using radians_mono [of 90 a] radians_mono [of a 180] by (simp_all add: radians_values)
    then have "0 \<le> cos (?t - pi)" by (intro cos_ge_zero) simp_all
    with b show "cos ?t \<le> 0 \<and> 0 \<le> sin ?t"
      using sin_ge_zero [of ?t] by simp
  next
    assume "180 \<le> a" "a \<le> 270"
    then have b: "pi \<le> ?t" "?t \<le> 3 * pi / 2"
      using radians_mono [of 180 a] radians_mono [of a 270] by (simp_all add: radians_values)
    then have "0 \<le> cos (?t - pi)" by (intro cos_ge_zero) simp_all
    moreover from b have "0 \<le> sin (?t - pi)" by (intro sin_ge_zero) simp_all
    ultimately show "cos ?t \<le> 0 \<and> sin ?t \<le> 0"
      by (simp add: sin_diff)
  next
    assume "270 \<le> a" "a \<le> 360"
    then have b: "3 * pi / 2 \<le> ?t" "?t \<le> 2 * pi"
      using radians_mono [of 270 a] radians_mono [of a 360] by (simp_all add: radians_values)
    then have "0 \<le> cos (?t - 2 * pi)" by (intro cos_ge_zero) simp_all
    moreover from b have "0 \<le> sin (2 * pi - ?t)" by (intro sin_ge_zero) simp_all
    ultimately show "0 \<le> cos ?t \<and> sin ?t \<le> 0"
      by (simp add: cos_diff)
  }
qed

lemma py_range_down_step:
  "step < 0 \<Longrightarrow> stop < start \<Longrightarrow>
   py_range start stop step = start # py_range (start + step) stop step"
  by (rule trans [OF py_range.simps]) simp

lemma py_range_down_done:
  "step < 0 \<Longrightarrow> \<not> stop < start \<Longrightarrow> py_range start stop step = []"
  by (rule trans [OF py_range.simps]) simp

lemma py_range_down_bounds:
  "step < 0 \<Longrightarrow> a \<in> set (py_range start stop step) \<Longrightarrow> stop < a \<and> a \<le> start"
proof (induction start stop step rule: py_range.induct)
  case (1 start stop step)
  show ?case
  proof (cases "stop < start")
    case True
    have "py_range start stop step = start # py_range (start + step) stop step"
      using "1.prems"(1) True by (rule py_range_down_step)
    with "1.prems"(2) have "a \<in> set (start # py_range (start + step) stop step)"
      by (simp only:)
    then have "a = start \<or> a \<in> set (py_range (start + step) stop step)"
      by (rule set_ConsD [THEN disjE]) blast+
    then show ?thesis
    proof
      assume "a = start"
      with True show ?thesis by (simp only: order_refl simp_thms)
    next
      assume m: "a \<in> set (py_range (start + step) stop step)"
      have "\<not> (0 < step \<and> start < stop)" using "1.prems"(1) by arith
      moreover have "step < 0 \<and> stop < start" using "1.prems"(1) True by blast
      ultimately have "stop < a \<and> a \<le> start + step"
        using "1.prems"(1) m by (rule "1.IH"(2))
      with "1.prems"(1) show ?thesis by arith
    qed
  next
    case False
    have "py_range start stop step = []"
      using "1.prems"(1) False by (rule py_range_down_done)
    with "1.prems"(2) have "a \<in> set []" by (simp only:)
    then show ?thesis by (simp only: set_simps empty_iff)
  qed
qed

lemma circle_point:
  fixes r t :: real
  shows "(r * cos t)\<^sup>2 + (r * sin t)\<^sup>2 = r\<^sup>2"
proof -
  have "(r * cos t)\<^sup>2 + (r * sin t)\<^sup>2 = r\<^sup>2 * ((cos t)\<^sup>2 + (sin t)\<^sup>2)"
    by (simp only: power_mult_distrib distrib_left)
  then show ?thesis by simp
qed

lemma arc_point_on_corner_arc:
  fixes cx cy radius qx qy :: int and c s :: real
  assumes "0 \<le> real_of_int qx * (real_of_int radius * c)"
    and "0 \<le> real_of_int qy * (- (real_of_int radius * s))"
    and "(real_of_int radius * c)\<^sup>2 + (real_of_int radius * s)\<^sup>2 = (real_of_int radius)\<^sup>2"
  shows "on_corner_arc cx cy radius qx qy
           (real_of_int cx + real_of_int radius * c, real_of_int cy - real_of_int radius * s)"
  using assms by (simp add: on_corner_arc_def)

lemma side_points_on_sides:
  assumes "p \<in> set (top_side x1 y1 x2 y2 radius) \<union> set (right_side x1 y1 x2 y2 radius)
             \<union> set (bottom_side x1 y1 x2 y2 radius) \<union> set (left_side x1 y1 x2 y2 radius)"
  shows "on_straight_side x1 y1 x2 y2 radius p"
proof -
  have up: "l \<le> i \<and> i \<le> h" if "i \<in> set (py_range l (h + 1) 1)" for i l h
    using py_range_bounds [of 1 i l "h + 1"] that by simp
  have down: "l \<le> i \<and> i \<le> h" if "i \<in> set (py_range h (l - 1) (- 1))" for i l h
    using py_range_down_bounds [of "- 1" i h "l - 1"] that by simp
  from assms show ?thesis
    unfolding top_side_def right_side_def bottom_side_def left_side_def on_straight_side_def
    by (auto dest!: up down)
qed


lemma arcs_on_corner_circles:
  assumes "0 \<le> radius"
  shows "p \<in> set (right_top_arc x1 y1 x2 y2 radius) \<Longrightarrow>
           on_corner_arc (x2 - radius) (y1 + radius) radius 1 (- 1) p"
    and "p \<in> set (right_bottom_arc x1 y1 x2 y2 radius) \<Longrightarrow>
           on_corner_arc (x2 - radius) (y2 - radius) radius (- 1) (- 1) p"
    and "p \<in> set (left_bottom_arc x1 y1 x2 y2 radius) \<Longrightarrow>
           on_corner_arc (x1 + radius) (y2 - radius) radius (- 1) 1 p"
    and "p \<in> set (left_top_arc x1 y1 x2 y2 radius) \<Longrightarrow>
           on_corner_arc (x1 + radius) (y1 + radius) radius 1 1 p"
proof -
  have r: "0 \<le> real_of_int radius" using assms by simp
  {
    assume "p \<in> set (right_top_arc x1 y1 x2 y2 radius)"
    then obtain a where a: "a \<in> set (py_range 0 91 5)"
      and p: "p = (real_of_int (x2 - radius) + real_of_int radius * cos (radians a),
                   real_of_int (y1 + radius) - real_of_int radius * sin (radians a))"
      by (auto simp: right_top_arc_def)
    from py_range_bounds [OF _ a] have "0 \<le> a" "a \<le> 90" by simp_all
    from quadrant_signs(1) [OF this] r
    show "on_corner_arc (x2 - radius) (y1 + radius) radius 1 (- 1) p"
      unfolding p by (intro arc_point_on_corner_arc) (simp_all add: circle_point)
  next
    assume "p \<in> set (right_bottom_arc x1 y1 x2 y2 radius)"
    then obtain a where a: "a \<in> set (py_range 90 181 5)"
      and p: "p = (real_of_int (x2 - radius) + real_of_int radius * cos (radians a),
                   real_of_int (y2 - radius) - real_of_int radius * sin (radians a))"
      by (auto simp: right_bottom_arc_def)
    from py_range_bounds [OF _ a] have "90 \<le> a" "a \<le> 180" by simp_all
    from quadrant_signs(2) [OF this] r
    show "on_corner_arc (x2 - radius) (y2 - radius) radius (- 1) (- 1) p"
      unfolding p
      by (intro arc_point_on_corner_arc) (simp_all add: circle_point mult_nonneg_nonpos)
  next
    assume "p \<in> set (left_bottom_arc x1 y1 x2 y2 radius)"
    then obtain a where a: "a \<in> set (py_range 180 271 5)"
      and p: "p = (real_of_int (x1 + radius) + real_of_int radius * cos (radians a),
                   real_of_int (y2 - radius) - real_of_int radius * sin (radians a))"
      by (auto simp: left_bottom_arc_def)
    from py_range_bounds [OF _ a] have "180 \<le> a" "a \<le> 270" by simp_all
    from quadrant_signs(3) [OF this] r
    show "on_corner_arc (x1 + radius) (y2 - radius) radius (- 1) 1 p"
      unfolding p
      by (intro arc_point_on_corner_arc) (simp_all add: circle_point mult_nonneg_nonpos)
  next
    assume "p \<in> set (left_top_arc x1 y1 x2 y2 radius)"
    then obtain a where a: "a \<in> set (py_range 270 361 5)"
      and p: "p = (real_of_int (x1 + radius) + real_of_int radius * cos (radians a),
                   real_of_int (y1 + radius) - real_of_int radius * sin (radians a))"
      by (auto simp: left_top_arc_def)
    from py_range_bounds [OF _ a] have "270 \<le> a" "a \<le> 360" by simp_all
    from quadrant_signs(4) [OF this] r
    show "on_corner_arc (x1 + radius) (y1 + radius) radius 1 1 p"
      unfolding p
      by (intro arc_point_on_corner_arc) (simp_all add: circle_point mult_nonneg_nonpos)
  }
qed

section \<open>C3: the border of the rounded rectangle\<close>

text \<open>
  Claim C3 says that every point of the border polyline lies on the outline of the rounded
  rectangle. For the one call the program makes, with corners (10, 10) and (440, 190) and
  radius 24, the last sample of the loop commented as the right bottom arc, at 180
  degrees, is the point (392, 166): it is a point of the polyline, at distance 24 from the
  centre (416, 166) of the bottom right corner circle, but on the quarter of that circle
  that faces into the rectangle, and it is not on the outline. The last sample of the loop
  commented as the left top arc, at 360 degrees, is (58, 34), likewise on the inward quarter
  of the top left corner circle and off the outline.
\<close>

theorem border_arcs_inside_the_button:
  "right_bottom_arc 10 10 440 190 24 ! 18 = (392, 166)
   \<and> (392, 166) \<in> set (border_points 10 10 440 190 24)
   \<and> on_corner_arc (440 - 24) (190 - 24) 24 (- 1) (- 1) (392, 166)
   \<and> \<not> on_rounded_rect 10 10 440 190 24 (392, 166)
   \<and> left_top_arc 10 10 440 190 24 ! 18 = (58, 34)
   \<and> (58, 34) \<in> set (border_points 10 10 440 190 24)
   \<and> on_corner_arc (10 + 24) (10 + 24) 24 1 1 (58, 34)
   \<and> \<not> on_rounded_rect 10 10 440 190 24 (58, 34)"
proof -
  have a: "(392, 166) \<in> set (right_bottom_arc 10 10 440 190 24)"
    using nth_mem [of 18 "right_bottom_arc 10 10 440 190 24"]
    by (simp add: length_arcs right_bottom_arc_last)
  have b: "(58, 34) \<in> set (left_top_arc 10 10 440 190 24)"
    using nth_mem [of 18 "left_top_arc 10 10 440 190 24"]
    by (simp add: length_arcs left_top_arc_last)
  have c: "\<not> on_rounded_rect 10 10 440 190 24 (392, 166)"
    "\<not> on_rounded_rect 10 10 440 190 24 (58, 34)"
    by (simp_all add: on_rounded_rect_def on_straight_side_def on_corner_arc_def)
  have d: "on_corner_arc (440 - 24) (190 - 24) 24 (- 1) (- 1) (392, 166)"
    "on_corner_arc (10 + 24) (10 + 24) 24 1 1 (58, 34)"
    by (simp_all add: on_corner_arc_def)
  from a b c d right_bottom_arc_last left_top_arc_last show ?thesis
    by (simp add: border_points_def)
qed

end
